theory Spec2Isabelle
  imports Main "HOL-Library.Word"
begin

section \<open>Python values reaching \<open>ConstArray\<close>\<close>

text \<open>
  \<open>epicsdbbuilder/const_array.py\<close> inspects its elements only through \<open>isinstance\<close>,
  \<open>type\<close>, \<open>str\<close> and \<open>repr\<close>. An element is therefore modelled by its class and its
  payload. A float is its 64 bits; a \<open>Decimal\<close> is what \<open>as_tuple\<close> shows of it: the sign,
  the digits of the coefficient, and the exponent or the mark of an infinity or a NaN. Of
  both only \<open>str\<close> is ever taken, which is a parameter of the model. An object of any
  other class is represented by the name of its class.
\<close>

type_synonym pyfloat = "64 word"

datatype decimal_exponent = Exponent int | Infinite | Quiet_NaN | Signaling_NaN

datatype pydecimal = DecimalTuple bool "nat list" decimal_exponent

text \<open>
  Modelled from the spec: the class \<open>Parameter\<close> of module \<open>parameter\<close>, which
  \<open>const_array.py\<close> imports. Its identity is its name; its attributes are the name and a
  description.
\<close>

record parameter =
  name :: string
  description :: string

datatype pytype = Parameter_t | str_t | int_t | float_t | bool_t | Decimal_t | other_t string

datatype element =
    PyParameter parameter
  | PyStr string
  | PyInt int
  | PyFloat pyfloat
  | PyBool bool
  | PyDecimal pydecimal
  | PyOther string

fun type_of :: "element \<Rightarrow> pytype" where
  "type_of (PyParameter p) = Parameter_t"
| "type_of (PyStr s) = str_t"
| "type_of (PyInt i) = int_t"
| "type_of (PyFloat x) = float_t"
| "type_of (PyBool b) = bool_t"
| "type_of (PyDecimal d) = Decimal_t"
| "type_of (PyOther c) = other_t c"

text \<open>
  The only subclass relation among the classes above: \<open>bool\<close> is a subclass of \<open>int\<close>.
  Objects of further subclasses of the six classes are not represented.
\<close>

definition issubclass :: "pytype \<Rightarrow> pytype \<Rightarrow> bool" where
  "issubclass t u = (t = u \<or> (t = bool_t \<and> u = int_t))"

definition isinstance :: "element \<Rightarrow> pytype list \<Rightarrow> bool" where
  "isinstance v classinfo = list_ex (issubclass (type_of v)) classinfo"

section \<open>Failures\<close>

text \<open>
  Every failure of the constructor is an \<open>assert\<close>, that is an \<open>AssertionError\<close> carrying
  a message (assertions are checked, as they are unless the interpreter runs with \<open>-O\<close>). The three messages that cite an element interpolate its index and its type;
  the message is kept in structured form:
  \<^item> \<open>Empty_iterable\<close>: "ConstArray: Empty iterable is not allowed."
  \<^item> \<open>Expects_string_or_parameter i t\<close>: "ConstArray: expects a string or parameter as element
    but an element at the index i is t."
  \<^item> \<open>Cannot_mix_strings i t\<close>: "ConstArray: cannot mix strings with an element at index i
    which is t."
  \<^item> \<open>Cannot_mix_numbers i t\<close>: "ConstArray: cannot mix numbers with an element at index i
    which is t."
\<close>

datatype message =
    Empty_iterable
  | Expects_string_or_parameter nat pytype
  | Cannot_mix_strings nat pytype
  | Cannot_mix_numbers nat pytype

datatype error = AssertionError message

fun cited_index :: "error \<Rightarrow> nat option" where
  "cited_index (AssertionError Empty_iterable) = None"
| "cited_index (AssertionError (Expects_string_or_parameter i t)) = Some i"
| "cited_index (AssertionError (Cannot_mix_strings i t)) = Some i"
| "cited_index (AssertionError (Cannot_mix_numbers i t)) = Some i"

section \<open>The constructor\<close>

record ConstArray =
  ca_value :: "element list"

definition valid_types :: "pytype list" where
  "valid_types = [Parameter_t, str_t, int_t, float_t, bool_t, Decimal_t]"

text \<open>
  The \<open>for index, value in enumerate(value_list)\<close> loop of \<open>_sanitize\<close>, with its two
  flags \<open>numbers\<close> and \<open>strings\<close> as loop state. It returns the final flags, or the
  failed assertion.
\<close>

fun sanitize_loop :: "bool \<Rightarrow> bool \<Rightarrow> (nat \<times> element) list \<Rightarrow> error + (bool \<times> bool)" where
  "sanitize_loop numbers strings [] = Inr (numbers, strings)"
| "sanitize_loop numbers strings ((index, v) # rest) =
    (if \<not> isinstance v valid_types then
       Inl (AssertionError (Expects_string_or_parameter index (type_of v)))
     else if isinstance v [Parameter_t, str_t] then
       (if numbers then Inl (AssertionError (Cannot_mix_strings index (type_of v)))
        else sanitize_loop numbers True rest)
     else
       (if strings then Inl (AssertionError (Cannot_mix_numbers index (type_of v)))
        else sanitize_loop True strings rest))"

text \<open>
  \<open>_sanitize\<close>: \<open>raw_value\<close> is the sequence of items the iterable yields, so that
  \<open>list(raw_value)\<close> is that sequence.
\<close>

definition sanitize :: "element list \<Rightarrow> error + element list" where
  "sanitize raw_value =
    (let value_list = raw_value in
     if \<not> length value_list > 0 then Inl (AssertionError Empty_iterable)
     else case sanitize_loop False False (List.enumerate 0 value_list) of
            Inl e \<Rightarrow> Inl e
          | Inr flags \<Rightarrow> Inr value_list)"

text \<open>\<open>__init__\<close>: the new object, or the error that left the constructor.\<close>

definition ConstArray_init :: "element list \<Rightarrow> error + ConstArray" where
  "ConstArray_init v =
    (case sanitize v of
       Inl e \<Rightarrow> Inl e
     | Inr value_list \<Rightarrow> Inr \<lparr>ca_value = value_list\<rparr>)"

section \<open>Functions this module takes from elsewhere\<close>

text \<open>
  \<open>quote_string\<close> is imported from module \<open>recordbase\<close> and \<open>str\<close> of a \<open>Parameter\<close> is
  defined in module \<open>parameter\<close>; \<open>str\<close> and \<open>repr\<close> of floats, decimals, strings and
  foreign objects belong to the interpreter. They are parameters of the model; every
  result below holds for all of them.
\<close>

record externals =
  quote_string :: "string \<Rightarrow> string"
  str_Parameter :: "parameter \<Rightarrow> string"
  repr_Parameter :: "parameter \<Rightarrow> string"
  str_float :: "pyfloat \<Rightarrow> string"
  str_Decimal :: "pydecimal \<Rightarrow> string"
  repr_str :: "string \<Rightarrow> string"
  str_object :: "string \<Rightarrow> string"
  repr_object :: "string \<Rightarrow> string"

text \<open>\<open>str\<close> of an \<open>int\<close>: a minus sign for a negative number, then the decimal digits.\<close>

definition digit :: "nat \<Rightarrow> char" where
  "digit d = ''0123456789'' ! d"

fun str_nat :: "nat \<Rightarrow> string" where
  "str_nat n = (if n < 10 then [digit n] else str_nat (n div 10) @ [digit (n mod 10)])"

declare str_nat.simps [simp del]

definition str_int :: "int \<Rightarrow> string" where
  "str_int i = (if i < 0 then CHR ''-'' # str_nat (nat (- i)) else str_nat (nat i))"

fun str :: "externals \<Rightarrow> element \<Rightarrow> string" where
  "str ext (PyParameter p) = str_Parameter ext p"
| "str ext (PyStr s) = s"
| "str ext (PyInt i) = str_int i"
| "str ext (PyFloat x) = str_float ext x"
| "str ext (PyBool b) = (if b then ''True'' else ''False'')"
| "str ext (PyDecimal d) = str_Decimal ext d"
| "str ext (PyOther c) = str_object ext c"

fun repr :: "externals \<Rightarrow> element \<Rightarrow> string" where
  "repr ext (PyParameter p) = repr_Parameter ext p"
| "repr ext (PyStr s) = repr_str ext s"
| "repr ext (PyInt i) = str_int i"
| "repr ext (PyFloat x) = str_float ext x"
| "repr ext (PyBool b) = (if b then ''True'' else ''False'')"
| "repr ext (PyDecimal d) = ''Decimal('' @ [CHR 0x27] @ str_Decimal ext d @ [CHR 0x27] @ '')''"
| "repr ext (PyOther c) = repr_object ext c"

text \<open>\<open>sep.join(parts)\<close>.\<close>

fun join :: "string \<Rightarrow> string list \<Rightarrow> string" where
  "join sep [] = []"
| "join sep [x] = x"
| "join sep (x # y # ys) = x @ sep @ join sep (y # ys)"

section \<open>The methods\<close>

text \<open>
  \<open>_format_constant\<close>: the clauses are tried in the order of the \<open>isinstance\<close> tests of
  the source (\<open>Parameter\<close>, \<open>str\<close>, \<open>bool\<close>), the last one being the final \<open>return\<close>.
\<close>

fun format_constant :: "externals \<Rightarrow> element \<Rightarrow> string" where
  "format_constant ext (PyParameter p) = [CHR 0x22] @ str ext (PyParameter p) @ [CHR 0x22]"
| "format_constant ext (PyStr s) = quote_string ext s"
| "format_constant ext (PyBool b) = (if b then ''1'' else ''0'')"
| "format_constant ext v = str ext v"

text \<open>What a method call hands back to its caller.\<close>

datatype returned = ReturnedNone | ReturnedStr string

text \<open>
  A method is a function of the object and its arguments. \<open>Validate\<close>, whose body is
  \<open>pass\<close>, is given with the outcome (a raised error or the returned value) and the
  object after the call; \<open>FormatDb\<close> and \<open>__repr__\<close> are expressions over the object.
\<close>

definition Validate :: "ConstArray \<Rightarrow> 'r \<Rightarrow> 'n \<Rightarrow> (error + returned) \<times> ConstArray" where
  "Validate self record fieldname = (Inr ReturnedNone, self)"

definition FormatDb :: "externals \<Rightarrow> ConstArray \<Rightarrow> 'r \<Rightarrow> 'n \<Rightarrow> string" where
  "FormatDb ext self record fieldname =
    (let formatted = map (format_constant ext) (ca_value self) in
     ''['' @ join '','' formatted @ '']'')"

definition repr_list :: "externals \<Rightarrow> element list \<Rightarrow> string" where
  "repr_list ext vs = ''['' @ join '', '' (map (repr ext) vs) @ '']''"

definition ConstArray_repr :: "externals \<Rightarrow> ConstArray \<Rightarrow> string" where
  "ConstArray_repr ext self = ''<ConstArray '' @ repr_list ext (ca_value self) @ ''>''"

text \<open>Calls made on an object after its construction, one after the other.\<close>

datatype ('r, 'n) call = Call_Validate 'r 'n | Call_FormatDb 'r 'n | Call_repr

fun perform :: "externals \<Rightarrow> ConstArray \<Rightarrow> ('r, 'n) call \<Rightarrow> (error + returned) \<times> ConstArray" where
  "perform ext self (Call_Validate r n) = Validate self r n"
| "perform ext self (Call_FormatDb r n) = (Inr (ReturnedStr (FormatDb ext self r n)), self)"
| "perform ext self Call_repr = (Inr (ReturnedStr (ConstArray_repr ext self)), self)"

fun perform_all ::
  "externals \<Rightarrow> ConstArray \<Rightarrow> ('r, 'n) call list \<Rightarrow> (error + returned) list \<times> ConstArray" where
  "perform_all ext self [] = ([], self)"
| "perform_all ext self (c # cs) =
    (case perform ext self c of (outcome, self') \<Rightarrow>
       (case perform_all ext self' cs of (outcomes, self'') \<Rightarrow> (outcome # outcomes, self'')))"

fun Validate_each :: "ConstArray \<Rightarrow> ('r \<times> 'n) list \<Rightarrow> (error + returned) list \<times> ConstArray" where
  "Validate_each self [] = ([], self)"
| "Validate_each self ((r, n) # args) =
    (case Validate self r n of (outcome, self') \<Rightarrow>
       (case Validate_each self' args of (outcomes, self'') \<Rightarrow> (outcome # outcomes, self'')))"

section \<open>The constructor over a store of list objects\<close>

text \<open>
  Where the caller keeps its own list and changes it later, list objects live in a store
  and are known by reference: the store is the sequence of the list objects allocated so
  far, a reference is a position in it. \<open>list(raw_value)\<close> allocates a new list object
  holding the items of \<open>raw_value\<close>; \<open>_sanitize\<close> checks and returns that object, and
  \<open>__init__\<close> keeps the reference.
\<close>

type_synonym ref = nat
type_synonym store = "element list list"

record ConstArray_obj =
  value_ref :: ref

definition list_new :: "store \<Rightarrow> ref \<Rightarrow> store \<times> ref" where
  "list_new h raw_value = (h @ [h ! raw_value], length h)"

definition init_in_store :: "store \<Rightarrow> ref \<Rightarrow> store \<times> (error + ConstArray_obj)" where
  "init_in_store h raw_value =
    (case list_new h raw_value of (h', value_list) \<Rightarrow>
       (case sanitize (h' ! value_list) of
          Inl e \<Rightarrow> (h', Inl e)
        | Inr checked \<Rightarrow> (h', Inr \<lparr>value_ref = value_list\<rparr>)))"

definition FormatDb_in_store :: "externals \<Rightarrow> store \<Rightarrow> ConstArray_obj \<Rightarrow> 'r \<Rightarrow> 'n \<Rightarrow> string" where
  "FormatDb_in_store ext h self record fieldname =
     FormatDb ext \<lparr>ca_value = h ! value_ref self\<rparr> record fieldname"

section \<open>The vocabulary of the specification\<close>

text \<open>The two categories of elements; an element of any other class has neither.\<close>

fun string_like :: "element \<Rightarrow> bool" where
  "string_like (PyParameter p) = True"
| "string_like (PyStr s) = True"
| "string_like v = False"

fun numeric_like :: "element \<Rightarrow> bool" where
  "numeric_like (PyInt i) = True"
| "numeric_like (PyFloat x) = True"
| "numeric_like (PyBool b) = True"
| "numeric_like (PyDecimal d) = True"
| "numeric_like v = False"

definition valid_kind :: "element \<Rightarrow> bool" where
  "valid_kind v = (string_like v \<or> numeric_like v)"

text \<open>An element contradicts the category of the first one when it has the other category.\<close>

definition contradicts :: "element \<Rightarrow> element \<Rightarrow> bool" where
  "contradicts first v =
    ((string_like first \<and> numeric_like v) \<or> (numeric_like first \<and> string_like v))"

fun first_index :: "('a \<Rightarrow> bool) \<Rightarrow> 'a list \<Rightarrow> nat option" where
  "first_index P [] = None"
| "first_index P (x # xs) = (if P x then Some 0 else map_option Suc (first_index P xs))"

definition first_contradiction :: "element list \<Rightarrow> nat option" where
  "first_contradiction vs =
    (case vs of [] \<Rightarrow> None | first # rest \<Rightarrow> first_index (contradicts first) vs)"

text \<open>
  The rendering of one element as the specification words it, kind by kind. Nothing is
  specified for an element of another class, which no constructed array holds.
\<close>

fun rendered :: "externals \<Rightarrow> element \<Rightarrow> string" where
  "rendered ext (PyParameter p) = [CHR 0x22] @ str_Parameter ext p @ [CHR 0x22]"
| "rendered ext (PyStr s) = quote_string ext s"
| "rendered ext (PyBool b) = (if b then ''1'' else ''0'')"
| "rendered ext (PyInt i) = str_int i"
| "rendered ext (PyFloat x) = str_float ext x"
| "rendered ext (PyDecimal d) = str_Decimal ext d"
| "rendered ext (PyOther c) = []"

text \<open>\<open>[r1,r2,...,rn]\<close>: a bracket, the first rendering, each further one after a comma, a bracket.\<close>

fun bracketed :: "string list \<Rightarrow> string" where
  "bracketed [] = ''[]''"
| "bracketed (r # rs) = ''['' @ r @ concat (map (\<lambda>r'. '','' @ r') rs) @ '']''"

text \<open>External functions for worked examples: quoting without any escape, \<open>$(name)\<close>.\<close>

definition example_externals :: externals where
  "example_externals =
    \<lparr>quote_string = (\<lambda>s. [CHR 0x22] @ s @ [CHR 0x22]),
     str_Parameter = (\<lambda>p. ''$('' @ name p @ '')''),
     repr_Parameter = (\<lambda>p. ''Parameter'' @ name p),
     str_float = (\<lambda>x. ''float''),
     str_Decimal = (\<lambda>d. ''decimal''),
     repr_str = (\<lambda>s. [CHR 0x27] @ s @ [CHR 0x27]),
     str_object = (\<lambda>c. c),
     repr_object = (\<lambda>c. c)\<rparr>"

section \<open>Properties of the loop\<close>

lemma isinstance_valid_types: "isinstance v valid_types = valid_kind v"
  by (cases v) (simp_all add: isinstance_def valid_types_def issubclass_def valid_kind_def)

lemma isinstance_string_types: "isinstance v [Parameter_t, str_t] = string_like v"
  by (cases v) (simp_all add: isinstance_def issubclass_def)

lemma string_like_not_numeric: "string_like v \<Longrightarrow> \<not> numeric_like v"
  by (cases v) simp_all

lemma loop_step:
  "sanitize_loop numbers strings ((index, v) # rest) =
    (if \<not> valid_kind v then Inl (AssertionError (Expects_string_or_parameter index (type_of v)))
     else if string_like v then
       (if numbers then Inl (AssertionError (Cannot_mix_strings index (type_of v)))
        else sanitize_loop numbers True rest)
     else
       (if strings then Inl (AssertionError (Cannot_mix_numbers index (type_of v)))
        else sanitize_loop True strings rest))"
  by (simp add: isinstance_valid_types isinstance_string_types)

lemma loop_string_prefix:
  "list_all string_like pre \<Longrightarrow>
   sanitize_loop False strings (List.enumerate n (pre @ rest)) =
   sanitize_loop False (strings \<or> pre \<noteq> []) (List.enumerate (n + length pre) rest)"
proof (induction pre arbitrary: n strings)
  case Nil
  then show ?case by simp
next
  case (Cons v pre)
  then have "string_like v" and "list_all string_like pre" by simp_all
  then show ?case
    using Cons.IH [where n = "Suc n" and strings = True]
    by (simp add: loop_step valid_kind_def del: sanitize_loop.simps)
qed

lemma loop_numeric_prefix:
  "list_all numeric_like pre \<Longrightarrow>
   sanitize_loop numbers False (List.enumerate n (pre @ rest)) =
   sanitize_loop (numbers \<or> pre \<noteq> []) False (List.enumerate (n + length pre) rest)"
proof (induction pre arbitrary: n numbers)
  case Nil
  then show ?case by simp
next
  case (Cons v pre)
  then have v: "numeric_like v" and "list_all numeric_like pre" by simp_all
  from v have "\<not> string_like v" using string_like_not_numeric by blast
  with v \<open>list_all numeric_like pre\<close> show ?case
    using Cons.IH [where n = "Suc n" and numbers = True]
    by (simp add: loop_step valid_kind_def del: sanitize_loop.simps)
qed

lemma loop_returns_homogeneous:
  "sanitize_loop numbers strings (List.enumerate n vs) = Inr flags \<Longrightarrow>
   vs = [] \<or> (list_all string_like vs \<and> \<not> numbers) \<or> (list_all numeric_like vs \<and> \<not> strings)"
proof (induction vs arbitrary: n numbers strings)
  case Nil
  then show ?case by simp
next
  case (Cons v vs)
  show ?case
  proof (cases "string_like v")
    case True
    with Cons.prems have nn: "\<not> numbers"
      and rec: "sanitize_loop numbers True (List.enumerate (Suc n) vs) = Inr flags"
      by (simp_all add: loop_step valid_kind_def del: sanitize_loop.simps split: if_splits)
    from Cons.IH [OF rec] True nn show ?thesis by auto
  next
    case False
    with Cons.prems have num: "numeric_like v" and ns: "\<not> strings"
      and rec: "sanitize_loop True strings (List.enumerate (Suc n) vs) = Inr flags"
      by (simp_all add: loop_step valid_kind_def del: sanitize_loop.simps split: if_splits)
    from Cons.IH [OF rec] num ns show ?thesis by auto
  qed
qed

lemma init_Inr_iff:
  "ConstArray_init vs = Inr self \<longleftrightarrow>
   (self = \<lparr>ca_value = vs\<rparr> \<and> (\<exists>flags. vs \<noteq> [] \<and> sanitize_loop False False (List.enumerate 0 vs) = Inr flags))"
  by (auto simp add: ConstArray_init_def sanitize_def Let_def split: sum.splits)

lemma init_Inr_homogeneous:
  assumes "ConstArray_init vs = Inr self"
  shows "ca_value self = vs" and "vs \<noteq> []" and "list_all string_like vs \<or> list_all numeric_like vs"
proof -
  from assms obtain flags where s: "self = \<lparr>ca_value = vs\<rparr>" and ne: "vs \<noteq> []"
    and l: "sanitize_loop False False (List.enumerate 0 vs) = Inr flags"
    by (auto simp add: init_Inr_iff)
  from s show "ca_value self = vs" by simp
  from ne show "vs \<noteq> []" .
  from loop_returns_homogeneous [OF l] ne
  show "list_all string_like vs \<or> list_all numeric_like vs" by blast
qed

lemma first_index_Some:
  "first_index P xs = Some i \<Longrightarrow>
   i < length xs \<and> P (xs ! i) \<and> list_all (\<lambda>x. \<not> P x) (take i xs)"
proof (induction xs arbitrary: i)
  case Nil
  then show ?case by simp
next
  case (Cons x xs)
  show ?case
  proof (cases "P x")
    case True
    with Cons.prems show ?thesis by simp
  next
    case False
    with Cons.prems obtain j where j: "first_index P xs = Some j" and i: "i = Suc j"
      by auto
    from Cons.IH [OF j] False i show ?thesis by simp
  qed
qed

lemma first_index_None: "first_index P xs = None \<Longrightarrow> list_all (\<lambda>x. \<not> P x) xs"
  by (induction xs) (auto split: if_splits)

lemma list_all_conj_imp:
  "list_all P xs \<Longrightarrow> list_all Q xs \<Longrightarrow> (\<And>x. P x \<Longrightarrow> Q x \<Longrightarrow> R x) \<Longrightarrow> list_all R xs"
  by (induction xs) auto

lemma join_comma: "join sep (r # rs) = r @ concat (map (\<lambda>r'. sep @ r') rs)"
  by (induction rs arbitrary: r) simp_all

lemma format_constant_rendered: "valid_kind v \<Longrightarrow> format_constant ext v = rendered ext v"
  by (cases v) (simp_all add: valid_kind_def)

lemma Validate_each_unchanged:
  "Validate_each self args = (replicate (length args) (Inr ReturnedNone), self)"
  by (induction args arbitrary: self) (auto simp add: Validate_def)

lemma perform_unchanged: "snd (perform ext self c) = self \<and> \<not> isl (fst (perform ext self c))"
  by (cases c) (simp_all add: Validate_def)

lemma perform_all_unchanged:
  "perform_all ext self calls = (outcomes, self') \<Longrightarrow>
   self' = self \<and> list_all (\<lambda>outcome. \<not> isl outcome) outcomes \<and> length outcomes = length calls"
proof (induction calls arbitrary: self outcomes self')
  case Nil
  then show ?case by simp
next
  case (Cons c calls)
  obtain outcome s1 where p: "perform ext self c = (outcome, s1)" by (cases "perform ext self c")
  obtain rest s2 where q: "perform_all ext s1 calls = (rest, s2)"
    by (cases "perform_all ext s1 calls")
  from p perform_unchanged [of ext self c] have s1: "s1 = self" and ok: "\<not> isl outcome"
    by simp_all
  from Cons.IH [OF q] have "s2 = s1" and "list_all (\<lambda>outcome. \<not> isl outcome) rest"
    and "length rest = length calls" by simp_all
  with Cons.prems p q s1 ok show ?case by auto
qed

section \<open>What \<open>FormatDb\<close> writes\<close>

text \<open>
  C1. For every constructed array, \<open>FormatDb\<close> returns the renderings of the values given
  to the constructor, in order, between brackets and separated by single commas, with no
  other character: a \<open>Parameter\<close> as its \<open>str\<close> between double quotes, a string as
  \<open>quote_string\<close> makes it, a boolean as \<open>1\<close> or \<open>0\<close>, any other number as its \<open>str\<close>,
  which for an integer is its decimal digits. The array of 1, 2, 3 gives \<open>[1,2,3]\<close>.
\<close>

theorem FormatDb_renders:
  assumes "ConstArray_init vs = Inr self"
  shows "FormatDb ext self record fieldname = bracketed (map (rendered ext) vs)"
proof -
  note h = init_Inr_homogeneous [OF assms]
  from h(3) have "list_all valid_kind vs"
    by (auto simp add: list_all_iff valid_kind_def)
  then have m: "map (format_constant ext) vs = map (rendered ext) vs"
    by (simp add: list_all_iff format_constant_rendered)
  from h(2) obtain v rest where vs: "vs = v # rest" by (cases vs) auto
  show ?thesis
    unfolding FormatDb_def Let_def h(1) m
    by (simp add: vs join_comma comp_def)
qed

theorem FormatDb_renders_witness:
  "ConstArray_init [PyInt 1, PyInt 2, PyInt 3] = Inr \<lparr>ca_value = [PyInt 1, PyInt 2, PyInt 3]\<rparr> \<and>
   FormatDb example_externals \<lparr>ca_value = [PyInt 1, PyInt 2, PyInt 3]\<rparr> () () = ''[1,2,3]''"
proof -
  have c: "ConstArray_init [PyInt 1, PyInt 2, PyInt 3] = Inr \<lparr>ca_value = [PyInt 1, PyInt 2, PyInt 3]\<rparr>"
    by code_simp
  have r: "bracketed (map (rendered example_externals) [PyInt 1, PyInt 2, PyInt 3]) = ''[1,2,3]''"
    by code_simp
  from FormatDb_renders [OF c, of example_externals "()" "()"] r c show ?thesis by simp
qed

section \<open>What the constructor accepts and rejects\<close>

text \<open>
  C2, as the code has it. A sequence with a string-like and a numeric-like element is
  always rejected. When no element of another class comes before the first element whose
  category contradicts that of the first element, the error is the mixing assertion and
  cites the index of that element; such an element exists whenever all elements are of
  valid classes.
\<close>

theorem mixed_sequence_rejected:
  assumes "list_ex string_like vs" and "list_ex numeric_like vs"
  shows "(\<exists>e. ConstArray_init vs = Inl e) \<and>
         (list_all valid_kind vs \<longrightarrow> first_contradiction vs \<noteq> None) \<and>
         (\<forall>i. first_contradiction vs = Some i \<and> list_all valid_kind (take i vs) \<longrightarrow>
              ConstArray_init vs = Inl (AssertionError
                (if string_like (vs ! i) then Cannot_mix_strings i (type_of (vs ! i))
                 else Cannot_mix_numbers i (type_of (vs ! i)))) \<and>
              cited_index (AssertionError
                (if string_like (vs ! i) then Cannot_mix_strings i (type_of (vs ! i))
                 else Cannot_mix_numbers i (type_of (vs ! i)))) = Some i)"
proof -
  have fails: "\<exists>e. ConstArray_init vs = Inl e"
  proof (cases "ConstArray_init vs")
    case (Inl e)
    then show ?thesis by blast
  next
    case (Inr self)
    from init_Inr_homogeneous(3) [OF Inr] assms string_like_not_numeric
    have False by (auto simp add: list_all_iff list_ex_iff)
    then show ?thesis ..
  qed
  have found: "first_contradiction vs \<noteq> None" if v: "list_all valid_kind vs"
  proof
    from assms(1) obtain first rest where vs: "vs = first # rest" by (cases vs) auto
    assume "first_contradiction vs = None"
    with vs have "list_all (\<lambda>x. \<not> contradicts first x) vs"
      using first_index_None [of "contradicts first" vs] by (simp add: first_contradiction_def)
    with assms v vs show False
      by (auto simp add: list_all_iff list_ex_iff contradicts_def valid_kind_def)
  qed
  have cited: "ConstArray_init vs = Inl (AssertionError
                (if string_like (vs ! i) then Cannot_mix_strings i (type_of (vs ! i))
                 else Cannot_mix_numbers i (type_of (vs ! i)))) \<and>
              cited_index (AssertionError
                (if string_like (vs ! i) then Cannot_mix_strings i (type_of (vs ! i))
                 else Cannot_mix_numbers i (type_of (vs ! i)))) = Some i"
    if a: "first_contradiction vs = Some i \<and> list_all valid_kind (take i vs)" for i
  proof -
    from assms(1) obtain first rest where vs: "vs = first # rest" by (cases vs) auto
    from a vs have fi: "first_index (contradicts first) vs = Some i"
      by (simp add: first_contradiction_def)
    note f = first_index_Some [OF fi]
    from f have i: "i < length vs" and c: "contradicts first (vs ! i)"
      and pre: "list_all (\<lambda>x. \<not> contradicts first x) (take i vs)" by simp_all
    from a have val: "list_all valid_kind (take i vs)" by simp
    have split: "vs = take i vs @ vs ! i # drop (Suc i) vs"
      using i by (simp add: id_take_nth_drop)
    have i0: "i \<noteq> 0"
    proof
      assume "i = 0"
      with c vs show False using string_like_not_numeric by (auto simp add: contradicts_def)
    qed
    then have ne: "take i vs \<noteq> []" using vs by simp
    have ne0: "0 < length vs" using vs by simp
    show ?thesis
    proof (cases "string_like first")
      case True
      with c have w: "numeric_like (vs ! i)" using string_like_not_numeric
        by (auto simp add: contradicts_def)
      then have ws: "\<not> string_like (vs ! i)" using string_like_not_numeric by blast
      have "\<And>x. \<not> contradicts first x \<Longrightarrow> valid_kind x \<Longrightarrow> string_like x"
        using True by (auto simp add: contradicts_def valid_kind_def)
      then have "list_all string_like (take i vs)"
        by (rule list_all_conj_imp [OF pre val])
      from loop_string_prefix [OF this, of False 0 "vs ! i # drop (Suc i) vs"] split ne i
      have "sanitize_loop False False (List.enumerate 0 vs) =
            sanitize_loop False True (List.enumerate i (vs ! i # drop (Suc i) vs))"
        by simp
      also have "\<dots> = Inl (AssertionError (Cannot_mix_numbers i (type_of (vs ! i))))"
        using w ws by (simp add: loop_step valid_kind_def del: sanitize_loop.simps)
      finally show ?thesis using ws ne0
        by (simp add: ConstArray_init_def sanitize_def)
    next
      case False
      with c have fn: "numeric_like first" and w: "string_like (vs ! i)"
        by (auto simp add: contradicts_def)
      have "\<And>x. \<not> contradicts first x \<Longrightarrow> valid_kind x \<Longrightarrow> numeric_like x"
        using fn by (auto simp add: contradicts_def valid_kind_def)
      then have "list_all numeric_like (take i vs)"
        by (rule list_all_conj_imp [OF pre val])
      from loop_numeric_prefix [OF this, of False 0 "vs ! i # drop (Suc i) vs"] split ne i
      have "sanitize_loop False False (List.enumerate 0 vs) =
            sanitize_loop True False (List.enumerate i (vs ! i # drop (Suc i) vs))"
        by simp
      also have "\<dots> = Inl (AssertionError (Cannot_mix_strings i (type_of (vs ! i))))"
        using w by (simp add: loop_step valid_kind_def del: sanitize_loop.simps)
      finally show ?thesis using w ne0
        by (simp add: ConstArray_init_def sanitize_def)
    qed
  qed
  from fails found cited show ?thesis by blast
qed

theorem mixed_sequence_rejected_witness:
  "list_ex string_like [PyStr ''A'', PyInt 1] \<and> list_ex numeric_like [PyStr ''A'', PyInt 1] \<and>
   first_contradiction [PyStr ''A'', PyInt 1] = Some 1 \<and>
   list_all valid_kind (take 1 [PyStr ''A'', PyInt 1]) \<and>
   ConstArray_init [PyStr ''A'', PyInt 1] = Inl (AssertionError (Cannot_mix_numbers 1 int_t))"
proof -
  have s: "list_ex string_like [PyStr ''A'', PyInt 1]" by simp
  have n: "list_ex numeric_like [PyStr ''A'', PyInt 1]" by simp
  have f: "first_contradiction [PyStr ''A'', PyInt 1] = Some 1"
    by (simp add: first_contradiction_def contradicts_def)
  have v: "list_all valid_kind (take 1 [PyStr ''A'', PyInt 1])"
    by (simp add: valid_kind_def)
  from mixed_sequence_rejected [OF s n] f v
  have "ConstArray_init [PyStr ''A'', PyInt 1] = Inl (AssertionError
          (if string_like ([PyStr ''A'', PyInt 1] ! 1)
           then Cannot_mix_strings 1 (type_of ([PyStr ''A'', PyInt 1] ! 1))
           else Cannot_mix_numbers 1 (type_of ([PyStr ''A'', PyInt 1] ! 1))))"
    by blast
  with s n f v show ?thesis by simp
qed

text \<open>
  C2 as first stated does not hold for every such sequence: the class of each element
  is asserted before its category, so an element of another class is cited first. In
  \<open>[None, "A", 1]\<close> the error cites index 0, which contradicts nothing.
\<close>

theorem mixed_sequence_counterexample:
  "list_ex string_like [PyOther ''NoneType'', PyStr ''A'', PyInt 1] \<and>
   list_ex numeric_like [PyOther ''NoneType'', PyStr ''A'', PyInt 1] \<and>
   ConstArray_init [PyOther ''NoneType'', PyStr ''A'', PyInt 1] =
     Inl (AssertionError (Expects_string_or_parameter 0 (other_t ''NoneType''))) \<and>
   cited_index (AssertionError (Expects_string_or_parameter 0 (other_t ''NoneType''))) = Some 0 \<and>
   first_contradiction [PyOther ''NoneType'', PyStr ''A'', PyInt 1] \<noteq> Some 0"
  by code_simp

text \<open>
  C3. For the empty input the constructor fails, with the assertion on the length: the
  failure is the constructor's own result, and no object exists on which \<open>Validate\<close> or
  \<open>FormatDb\<close> could be called later.
\<close>

theorem empty_iterable_rejected:
  "ConstArray_init [] = Inl (AssertionError Empty_iterable) \<and>
   (\<forall>self. ConstArray_init [] \<noteq> Inr self)"
  by (simp add: ConstArray_init_def sanitize_def)

theorem empty_iterable_rejected_witness:
  "ConstArray_init [] \<noteq> Inr \<lparr>ca_value = []\<rparr>"
  using empty_iterable_rejected by blast

text \<open>
  C4. A non-empty sequence whose elements are all string-like, or all numeric-like, is
  accepted, and the object holds exactly that sequence; the flags of the loop end as
  (numbers, strings) = (all numeric-like, all string-like). In particular a single element
  of a valid kind is accepted, and a non-empty sequence of Parameters is accepted with the
  \<open>strings\<close> flag set and the \<open>numbers\<close> flag clear.
\<close>

theorem homogeneous_sequence_accepted:
  "(vs \<noteq> [] \<and> (list_all string_like vs \<or> list_all numeric_like vs) \<longrightarrow>
      ConstArray_init vs = Inr \<lparr>ca_value = vs\<rparr> \<and>
      sanitize_loop False False (List.enumerate 0 vs) =
        Inr (list_all numeric_like vs, list_all string_like vs)) \<and>
   (valid_kind v \<longrightarrow> ConstArray_init [v] = Inr \<lparr>ca_value = [v]\<rparr>) \<and>
   (ps \<noteq> [] \<longrightarrow>
      ConstArray_init (map PyParameter ps) = Inr \<lparr>ca_value = map PyParameter ps\<rparr> \<and>
      sanitize_loop False False (List.enumerate 0 (map PyParameter ps)) = Inr (False, True))"
proof -
  have main: "ConstArray_init xs = Inr \<lparr>ca_value = xs\<rparr> \<and>
      sanitize_loop False False (List.enumerate 0 xs) =
        Inr (list_all numeric_like xs, list_all string_like xs)"
    if ne: "xs \<noteq> []" and hom: "list_all string_like xs \<or> list_all numeric_like xs" for xs
  proof -
    from ne obtain x rest where xs: "xs = x # rest" by (cases xs) auto
    from hom have l: "sanitize_loop False False (List.enumerate 0 xs) =
        Inr (list_all numeric_like xs, list_all string_like xs)"
    proof
      assume s: "list_all string_like xs"
      with xs have "\<not> list_all numeric_like xs" using string_like_not_numeric by auto
      with s ne loop_string_prefix [OF s, of False 0 "[]"] show ?thesis by simp
    next
      assume s: "list_all numeric_like xs"
      with xs have "\<not> list_all string_like xs" using string_like_not_numeric by auto
      with s ne loop_numeric_prefix [OF s, of False 0 "[]"] show ?thesis by simp
    qed
    with ne show ?thesis by (simp add: ConstArray_init_def sanitize_def)
  qed
  have single: "ConstArray_init [v] = Inr \<lparr>ca_value = [v]\<rparr>" if "valid_kind v"
    using that main [of "[v]"] by (simp add: valid_kind_def)
  have params: "ConstArray_init (map PyParameter ps) = Inr \<lparr>ca_value = map PyParameter ps\<rparr> \<and>
      sanitize_loop False False (List.enumerate 0 (map PyParameter ps)) = Inr (False, True)"
    if "ps \<noteq> []"
  proof -
    have s: "list_all string_like (map PyParameter ps)" by (simp add: list_all_iff)
    with that have "\<not> list_all numeric_like (map PyParameter ps)"
      by (cases ps) simp_all
    with s that main [of "map PyParameter ps"] show ?thesis by simp
  qed
  from main [of vs] single params show ?thesis by blast
qed

theorem homogeneous_sequence_accepted_witness:
  "ConstArray_init [PyInt 1, PyBool True, PyInt 3] = Inr \<lparr>ca_value = [PyInt 1, PyBool True, PyInt 3]\<rparr> \<and>
   ConstArray_init [PyStr ''A''] = Inr \<lparr>ca_value = [PyStr ''A'']\<rparr> \<and>
   sanitize_loop False False
     (List.enumerate 0 (map PyParameter [\<lparr>name = ''P'', description = ''A parameter''\<rparr>,
                                         \<lparr>name = ''Q'', description = ''A number''\<rparr>])) =
     Inr (False, True)"
  using homogeneous_sequence_accepted [of "[PyInt 1, PyBool True, PyInt 3]" "PyStr ''A''"
      "[\<lparr>name = ''P'', description = ''A parameter''\<rparr>, \<lparr>name = ''Q'', description = ''A number''\<rparr>]"]
  by (simp add: valid_kind_def)

text \<open>
  C5, as the code has it. A sequence holding an element of another class than the six
  valid ones is always rejected. When the elements before that element are all
  string-like or all numeric-like, the error is the assertion on the class and cites the
  index of that element.
\<close>

theorem invalid_element_rejected:
  assumes "i < length vs" and "\<not> valid_kind (vs ! i)"
  shows "(\<exists>e. ConstArray_init vs = Inl e) \<and>
         (list_all string_like (take i vs) \<or> list_all numeric_like (take i vs) \<longrightarrow>
            ConstArray_init vs =
              Inl (AssertionError (Expects_string_or_parameter i (type_of (vs ! i)))))"
proof -
  have fails: "\<exists>e. ConstArray_init vs = Inl e"
  proof (cases "ConstArray_init vs")
    case (Inl e)
    then show ?thesis by blast
  next
    case (Inr self)
    from init_Inr_homogeneous(3) [OF Inr] have "list_all valid_kind vs"
      by (auto simp add: list_all_iff valid_kind_def)
    with assms have False by (simp add: list_all_length)
    then show ?thesis ..
  qed
  have split: "vs = take i vs @ vs ! i # drop (Suc i) vs"
    using assms(1) by (simp add: id_take_nth_drop)
  have ne: "\<not> length vs = 0" using assms(1) by auto
  have len: "length (take i vs) = i" using assms(1) by simp
  have stop: "sanitize_loop numbers strings (List.enumerate i (vs ! i # drop (Suc i) vs)) =
      Inl (AssertionError (Expects_string_or_parameter i (type_of (vs ! i))))" for numbers strings
    using assms(2) by (simp add: loop_step del: sanitize_loop.simps)
  have cited: "ConstArray_init vs =
      Inl (AssertionError (Expects_string_or_parameter i (type_of (vs ! i))))"
    if h: "list_all string_like (take i vs) \<or> list_all numeric_like (take i vs)"
  proof -
    from h have "sanitize_loop False False (List.enumerate 0 vs) =
      Inl (AssertionError (Expects_string_or_parameter i (type_of (vs ! i))))"
    proof
      assume s: "list_all string_like (take i vs)"
      from loop_string_prefix [OF s, of False 0 "vs ! i # drop (Suc i) vs"] split len
      have "sanitize_loop False False (List.enumerate 0 vs) =
            sanitize_loop False (take i vs \<noteq> []) (List.enumerate i (vs ! i # drop (Suc i) vs))"
        by simp
      with stop show ?thesis by simp
    next
      assume s: "list_all numeric_like (take i vs)"
      from loop_numeric_prefix [OF s, of False 0 "vs ! i # drop (Suc i) vs"] split len
      have "sanitize_loop False False (List.enumerate 0 vs) =
            sanitize_loop (take i vs \<noteq> []) False (List.enumerate i (vs ! i # drop (Suc i) vs))"
        by simp
      with stop show ?thesis by simp
    qed
    with ne show ?thesis by (simp add: ConstArray_init_def sanitize_def)
  qed
  from fails cited show ?thesis by blast
qed

theorem invalid_element_rejected_witness:
  "(1::nat) < length [PyStr ''A'', PyOther ''NoneType'', PyInt 1] \<and>
   \<not> valid_kind ([PyStr ''A'', PyOther ''NoneType'', PyInt 1] ! 1) \<and>
   list_all string_like (take 1 [PyStr ''A'', PyOther ''NoneType'', PyInt 1]) \<and>
   ConstArray_init [PyStr ''A'', PyOther ''NoneType'', PyInt 1] =
     Inl (AssertionError (Expects_string_or_parameter 1 (other_t ''NoneType'')))"
proof -
  have l: "(1::nat) < length [PyStr ''A'', PyOther ''NoneType'', PyInt 1]" by simp
  have v: "\<not> valid_kind ([PyStr ''A'', PyOther ''NoneType'', PyInt 1] ! 1)"
    by (simp add: valid_kind_def)
  have p: "list_all string_like (take 1 [PyStr ''A'', PyOther ''NoneType'', PyInt 1])" by simp
  from invalid_element_rejected [OF l v] p
  have "ConstArray_init [PyStr ''A'', PyOther ''NoneType'', PyInt 1] =
     Inl (AssertionError (Expects_string_or_parameter 1
            (type_of ([PyStr ''A'', PyOther ''NoneType'', PyInt 1] ! 1))))"
    by blast
  with l v p show ?thesis by simp
qed

text \<open>
  C5 as first stated does not hold for every such sequence: the loop stops at the first
  failed assertion. In \<open>["A", 1, None]\<close> the element of another class is at index 2 and
  the error is the mixing assertion at index 1.
\<close>

theorem invalid_element_counterexample:
  "(2::nat) < length [PyStr ''A'', PyInt 1, PyOther ''NoneType''] \<and>
   \<not> valid_kind ([PyStr ''A'', PyInt 1, PyOther ''NoneType''] ! 2) \<and>
   ConstArray_init [PyStr ''A'', PyInt 1, PyOther ''NoneType''] =
     Inl (AssertionError (Cannot_mix_numbers 1 int_t)) \<and>
   cited_index (AssertionError (Cannot_mix_numbers 1 int_t)) \<noteq> Some 2"
  by code_simp

section \<open>After construction\<close>

text \<open>
  C7. \<open>Validate\<close> returns \<open>None\<close> and leaves the object as it was, for every object and
  all arguments; so does any number of calls in a row, each of which returns \<open>None\<close>.
\<close>

theorem Validate_is_noop:
  "Validate self record fieldname = (Inr ReturnedNone, self) \<and>
   snd (Validate_each self args) = self \<and>
   list_all (\<lambda>outcome. outcome = Inr ReturnedNone) (fst (Validate_each self args)) \<and>
   length (fst (Validate_each self args)) = length args"
  by (simp add: Validate_def Validate_each_unchanged list_all_length)

theorem Validate_is_noop_witness:
  "Validate_each \<lparr>ca_value = [PyStr ''A'', PyStr ''B'']\<rparr> [(''r1'', ''INP''), (''r2'', ''OUT'')] =
     ([Inr ReturnedNone, Inr ReturnedNone], \<lparr>ca_value = [PyStr ''A'', PyStr ''B'']\<rparr>)"
proof -
  let ?self = "\<lparr>ca_value = [PyStr ''A'', PyStr ''B'']\<rparr>"
  let ?args = "[(''r1'', ''INP''), (''r2'', ''OUT'')]"
  from Validate_is_noop [of ?self "()" "()" ?args]
  have "snd (Validate_each ?self ?args) = ?self"
    and "list_all (\<lambda>outcome. outcome = Inr ReturnedNone) (fst (Validate_each ?self ?args))"
    and "length (fst (Validate_each ?self ?args)) = 2"
    by simp_all
  then show ?thesis
    by (cases "Validate_each ?self ?args") (auto simp add: length_Suc_conv numeral_2_eq_2)
qed

text \<open>
  C8. After a successful construction from \<open>vs\<close>, any series of calls of \<open>Validate\<close>,
  \<open>FormatDb\<close> and \<open>__repr__\<close> leaves the object as constructed: it still holds \<open>vs\<close>,
  which has at least one element and is homogeneous, and none of the calls fails.
\<close>

theorem constructed_array_is_immutable:
  assumes "ConstArray_init vs = Inr self"
    and "perform_all ext self calls = (outcomes, self')"
  shows "self' = self \<and> ca_value self' = vs \<and> 1 \<le> length (ca_value self') \<and>
         (list_all string_like (ca_value self') \<or> list_all numeric_like (ca_value self')) \<and>
         list_all (\<lambda>outcome. \<not> isl outcome) outcomes \<and> length outcomes = length calls"
proof -
  note h = init_Inr_homogeneous [OF assms(1)]
  note p = perform_all_unchanged [OF assms(2)]
  from h(2) have "1 \<le> length vs" by (cases vs) simp_all
  with h p show ?thesis by simp
qed

theorem constructed_array_is_immutable_witness:
  "ConstArray_init [PyInt 1, PyBool True] = Inr \<lparr>ca_value = [PyInt 1, PyBool True]\<rparr> \<and>
   perform_all example_externals \<lparr>ca_value = [PyInt 1, PyBool True]\<rparr>
       [Call_Validate ''r'' ''INP'', Call_FormatDb ''r'' ''INP'', Call_repr] =
     ([Inr ReturnedNone, Inr (ReturnedStr ''[1,1]''), Inr (ReturnedStr ''<ConstArray [1, True]>'')],
      \<lparr>ca_value = [PyInt 1, PyBool True]\<rparr>) \<and>
   1 \<le> length (ca_value \<lparr>ca_value = [PyInt 1, PyBool True]\<rparr>)"
proof -
  have c: "ConstArray_init [PyInt 1, PyBool True] = Inr \<lparr>ca_value = [PyInt 1, PyBool True]\<rparr>"
    by code_simp
  have p: "perform_all example_externals \<lparr>ca_value = [PyInt 1, PyBool True]\<rparr>
       [Call_Validate ''r'' ''INP'', Call_FormatDb ''r'' ''INP'', Call_repr] =
     ([Inr ReturnedNone, Inr (ReturnedStr ''[1,1]''), Inr (ReturnedStr ''<ConstArray [1, True]>'')],
      \<lparr>ca_value = [PyInt 1, PyBool True]\<rparr>)"
    by code_simp
  from constructed_array_is_immutable [OF c p] c p show ?thesis by simp
qed

text \<open>
  C9. The result of \<open>FormatDb\<close> is the same for any two pairs of record and field name,
  of whatever types; it is a function of the values given to the constructor alone.
\<close>

theorem FormatDb_ignores_context:
  assumes "ConstArray_init vs = Inr self"
  shows "FormatDb ext self record1 fieldname1 = FormatDb ext self record2 fieldname2 \<and>
         FormatDb ext self record1 fieldname1 =
           ''['' @ join '','' (map (format_constant ext) vs) @ '']''"
  using init_Inr_homogeneous(1) [OF assms] by (simp add: FormatDb_def)

theorem FormatDb_ignores_context_witness:
  "ConstArray_init [PyStr ''A'', PyStr ''B''] = Inr \<lparr>ca_value = [PyStr ''A'', PyStr ''B'']\<rparr> \<and>
   FormatDb example_externals \<lparr>ca_value = [PyStr ''A'', PyStr ''B'']\<rparr> ''TRIG'' ''INP'' =
   FormatDb example_externals \<lparr>ca_value = [PyStr ''A'', PyStr ''B'']\<rparr> (7::nat) True"
proof -
  have c: "ConstArray_init [PyStr ''A'', PyStr ''B''] = Inr \<lparr>ca_value = [PyStr ''A'', PyStr ''B'']\<rparr>"
    by code_simp
  from FormatDb_ignores_context [OF c, of example_externals "''TRIG''" "''INP''" "7::nat" True] c
  show ?thesis by blast
qed

text \<open>
  C10. The constructor keeps a list object of its own: its reference differs from the
  caller's, and the new object holds the items the caller's list had. Whatever the caller
  puts into its list afterwards, the stored items and the result of \<open>FormatDb\<close> stay the
  same.
\<close>

theorem constructor_copies_input:
  assumes "raw_value < length h" and "init_in_store h raw_value = (h', Inr self)"
  shows "value_ref self \<noteq> raw_value \<and> h' ! value_ref self = h ! raw_value \<and>
         (\<forall>xs. h'[raw_value := xs] ! raw_value = xs \<and>
               h'[raw_value := xs] ! value_ref self = h ! raw_value \<and>
               FormatDb_in_store ext (h'[raw_value := xs]) self record fieldname =
               FormatDb_in_store ext h' self record fieldname)"
proof -
  from assms(2) have h': "h' = h @ [h ! raw_value]" and r: "value_ref self = length h"
    by (auto simp add: init_in_store_def list_new_def split: sum.splits)
  from r assms(1) have d: "value_ref self \<noteq> raw_value" by simp
  from h' r have v: "h' ! value_ref self = h ! raw_value" by simp
  from h' assms(1) have l: "raw_value < length h'" by simp
  have "h'[raw_value := xs] ! value_ref self = h ! raw_value" for xs
    using d v by simp
  with d v l show ?thesis by (simp add: FormatDb_in_store_def)
qed

theorem constructor_copies_input_witness:
  "(0::nat) < length [[PyInt 1, PyInt 2]] \<and>
   init_in_store [[PyInt 1, PyInt 2]] 0 = ([[PyInt 1, PyInt 2], [PyInt 1, PyInt 2]], Inr \<lparr>value_ref = 1\<rparr>) \<and>
   FormatDb_in_store example_externals ([[PyInt 1, PyInt 2], [PyInt 1, PyInt 2]][0 := [PyStr ''x'']])
     \<lparr>value_ref = 1\<rparr> () () = ''[1,2]''"
proof -
  have l: "(0::nat) < length [[PyInt 1, PyInt 2]]" by simp
  have c: "init_in_store [[PyInt 1, PyInt 2]] 0 =
      ([[PyInt 1, PyInt 2], [PyInt 1, PyInt 2]], Inr \<lparr>value_ref = 1\<rparr>)"
    by code_simp
  have f: "FormatDb_in_store example_externals [[PyInt 1, PyInt 2], [PyInt 1, PyInt 2]]
     \<lparr>value_ref = 1\<rparr> () () = ''[1,2]''"
    by code_simp
  from constructor_copies_input [OF l c, of example_externals "()" "()"] f l c
  show ?thesis by simp
qed

end
